theory Spec2Isabelle
  imports Main "HOL-Library.Word"
begin

section \<open>Data model\<close>

text \<open>
  The referee client of \<^verbatim>\<open>src/fumanoid.cpp\<close> (class \<^verbatim>\<open>RefereeGameController\<close>) and the
  receiver of \<^verbatim>\<open>GameCtrl.cpp\<close> (class \<^verbatim>\<open>GameCtrl\<close>) both include headers that are not
  among the sources (\<^verbatim>\<open>referee.h\<close>, \<^verbatim>\<open>RoboCupGameControlData.h\<close>, \<^verbatim>\<open>robot.h\<close>). The
  enumerations below list the enumerators the code names. The protocol constants are
  taken as a parameter (record \<open>Constants\<close>). Integer fields whose declared width is
  not in the sources are modelled by their values (\<open>int\<close>), and a copy from a packet
  field to a state field keeps the value; the update counter, which the code increments,
  is a machine word of any width.
\<close>

datatype Color = Magenta | Cyan

datatype KickOffMode = KICKOFF_REGULAR | KICKOFF_DROPBALL

datatype KickOffSide = KICKOFFSIDE_ME | KICKOFFSIDE_OPPONENT | KICKOFFSIDE_ANY

datatype GameState = GAME_STOPPED | GAME_READY | GAME_SET | GAME_STARTED

text \<open>The macros of the missing headers, as a parameter of every operation.\<close>

record Constants =
  STRUCT_HEADER :: string
  STRUCT_VERSION :: int
  MAX_NUM_PLAYERS :: int
  TEAM_MAGENTA :: int
  STATE_INITIAL :: int
  STATE_READY :: int
  STATE_SET :: int
  STATE_PLAYING :: int
  STATE_FINISHED :: int
  STATE2_NORMAL :: int
  STATE2_PENALTYSHOOT :: int
  sizeof_RoboCupGameControlData :: int
  GAMECONTROLLER_RETURN_STRUCT_HEADER :: string
  GAMECONTROLLER_RETURN_STRUCT_VERSION :: int
  GAMECONTROLLER_RETURN_MSG_ALIVE :: int
  GAMECONTROLLER_STRUCT_HEADER :: string
  GAMECONTROLLER_STRUCT_VERSION :: int

text \<open>The referee's broadcast, seen through the struct the receive buffer is cast to.\<close>

record RobotInfo =
  secsTillUnpenalised :: int

record TeamInfo =
  teamNumber :: int
  teamColour :: int
  score :: int
  players :: "RobotInfo list"

record RoboCupGameControlData =
  header :: string
  version :: int
  state :: int
  kickOffTeam :: int
  secGameState :: int
  teams :: "TeamInfo list"

text \<open>The return packet \<^verbatim>\<open>RoboCupGameControlReturnData\<close>, in the order of its initialiser.\<close>

record RoboCupGameControlReturnData =
  ret_header :: string
  ret_version :: int
  team :: int
  player :: int
  message :: int

text \<open>The member \<^verbatim>\<open>state\<close> of the controller: the robot's view of the game.\<close>

record (overloaded) ('w::len) RefereeState =
  teamID :: int
  teamColor :: Color
  counter :: "'w word"
  opponentID :: int
  teamScore :: int
  opponentScore :: int
  kickOffMode :: KickOffMode
  kickOffSide :: KickOffSide
  gameState :: GameState
  isPenaltyShoot :: bool
  remainingPenalizedTime :: int
  isPenalized :: bool

text \<open>
  What the code reports: the two \<^verbatim>\<open>ERROR\<close> calls (with their two arguments) and the
  \<^verbatim>\<open>printf\<close> of a failed read. The \<^verbatim>\<open>INFO\<close> lines only log a change that the state
  shows anyway; they are left out.
\<close>

datatype report =
    VersionMismatch int int
  | SizeMismatch int int
  | RecvError

text \<open>
  The controller: its members (the member \<^verbatim>\<open>state\<close> is \<open>refState\<close> here, \<open>state\<close> being
  the field of the packet), the robot's own identifier (\<^verbatim>\<open>robot.getID()\<close>, passed to an
  \<^verbatim>\<open>int16_t\<close> parameter), the reports made so far and the packets written to the
  transport so far, each with the port it was sent to.
\<close>

record (overloaded) ('w::len) RefereeGameController =
  refState :: "'w RefereeState"
  refereeEnabled :: bool
  GCinitialized :: bool
  gcPort :: int
  robotID :: "16 word"
  reports :: "report list"
  written :: "(RoboCupGameControlReturnData \<times> int) list"

section \<open>Operations of the referee client\<close>

text \<open>
  \<^verbatim>\<open>handleRefereeMessage\<close> (lines 231 to 343 of \<^verbatim>\<open>fumanoid.cpp\<close>) is one long body. It is
  split here at its comments: each block of the body is a definition of its own, in the
  order of the code, and \<open>applyPacket\<close> composes them.
\<close>

text \<open>
  \<^verbatim>\<open>getGCRobotID\<close> (lines 216 to 223): robots 1..MAX_NUM_PLAYERS are mapped to
  0..MAX_NUM_PLAYERS-1, all others to -1. In range, \<open>robotID - 1\<close> fits \<^verbatim>\<open>int16_t\<close>.
\<close>

definition getGCRobotID :: "Constants \<Rightarrow> 16 word \<Rightarrow> 16 word" where
  "getGCRobotID K rid =
     (if 0 < sint rid \<and> sint rid \<le> MAX_NUM_PLAYERS K then rid - 1 else - 1)"

text \<open>
  Lines 242 to 250, the recipient check: the index of the first team record that carries
  our team number, or the early return.
\<close>

definition findTeamIndex :: "RoboCupGameControlData \<Rightarrow> int \<Rightarrow> int option" where
  "findTeamIndex data tid =
     (if teamNumber (teams data ! 0) = tid then Some 0
      else if teamNumber (teams data ! 1) = tid then Some 1
      else None)"

text \<open>Lines 253 to 256: \<^verbatim>\<open>state.counter++\<close> and the opponent's identifier.\<close>

definition newState :: "RoboCupGameControlData \<Rightarrow> int \<Rightarrow> 'w::len RefereeState \<Rightarrow> 'w RefereeState" where
  "newState data teamIndex s =
     s\<lparr>counter := counter s + 1,
       opponentID := teamNumber (teams data ! nat (1 - teamIndex))\<rparr>"

text \<open>Lines 259 to 268: both scores follow the packet.\<close>

definition adjustScores :: "RoboCupGameControlData \<Rightarrow> int \<Rightarrow> 'w::len RefereeState \<Rightarrow> 'w RefereeState" where
  "adjustScores data teamIndex s =
     (let s1 = (if score (teams data ! nat teamIndex) \<noteq> teamScore s
                then s\<lparr>teamScore := score (teams data ! nat teamIndex)\<rparr> else s)
      in if score (teams data ! nat (1 - teamIndex)) \<noteq> opponentScore s1
         then s1\<lparr>opponentScore := score (teams data ! nat (1 - teamIndex))\<rparr> else s1)"

text \<open>
  Lines 279 to 283, the drop ball test, and lines 286 to 293, the kick off test: two
  \<^verbatim>\<open>if\<close> statements, one after the other.
\<close>

definition handleDropBall :: "RoboCupGameControlData \<Rightarrow> 'w::len RefereeState \<Rightarrow> 'w RefereeState" where
  "handleDropBall data s =
     (if kickOffTeam data = 2 \<and> kickOffMode s \<noteq> KICKOFF_DROPBALL
      then s\<lparr>kickOffMode := KICKOFF_DROPBALL, kickOffSide := KICKOFFSIDE_ANY\<rparr>
      else s)"

definition adjustKickOff :: "RoboCupGameControlData \<Rightarrow> int \<Rightarrow> 'w::len RefereeState \<Rightarrow> 'w RefereeState" where
  "adjustKickOff data teamIndex s =
     (if (kickOffTeam data = teamIndex \<and> kickOffSide s \<noteq> KICKOFFSIDE_ME)
       \<or> (kickOffTeam data = 1 - teamIndex \<and> kickOffSide s \<noteq> KICKOFFSIDE_OPPONENT)
      then s\<lparr>kickOffMode := KICKOFF_REGULAR,
             kickOffSide := (if kickOffTeam data = teamIndex then KICKOFFSIDE_ME
                             else KICKOFFSIDE_OPPONENT)\<rparr>
      else s)"

text \<open>Lines 296 to 300, the team colour; lines 303 to 318, the game state; lines 321 to 327, the penalty shoot-out flag.\<close>

definition adjustTeamColor :: "Constants \<Rightarrow> RoboCupGameControlData \<Rightarrow> int \<Rightarrow> 'w::len RefereeState \<Rightarrow> 'w RefereeState" where
  "adjustTeamColor K data teamIndex s =
     (let c = (if teamColour (teams data ! nat teamIndex) = TEAM_MAGENTA K then Magenta else Cyan)
      in if c \<noteq> teamColor s then s\<lparr>teamColor := c\<rparr> else s)"

definition adjustGameState :: "Constants \<Rightarrow> RoboCupGameControlData \<Rightarrow> 'w::len RefereeState \<Rightarrow> 'w RefereeState" where
  "adjustGameState K data s =
     (if state data = STATE_INITIAL K \<and> gameState s \<noteq> GAME_STOPPED then s\<lparr>gameState := GAME_STOPPED\<rparr>
      else if state data = STATE_READY K \<and> gameState s \<noteq> GAME_READY then s\<lparr>gameState := GAME_READY\<rparr>
      else if state data = STATE_SET K \<and> gameState s \<noteq> GAME_SET then s\<lparr>gameState := GAME_SET\<rparr>
      else if state data = STATE_PLAYING K \<and> gameState s \<noteq> GAME_STARTED then s\<lparr>gameState := GAME_STARTED\<rparr>
      else if state data = STATE_FINISHED K \<and> gameState s \<noteq> GAME_STOPPED then s\<lparr>gameState := GAME_STOPPED\<rparr>
      else s)"

definition adjustPenaltyShoot :: "Constants \<Rightarrow> RoboCupGameControlData \<Rightarrow> 'w::len RefereeState \<Rightarrow> 'w RefereeState" where
  "adjustPenaltyShoot K data s =
     (if secGameState data = STATE2_NORMAL K \<and> isPenaltyShoot s then s\<lparr>isPenaltyShoot := False\<rparr>
      else if secGameState data = STATE2_PENALTYSHOOT K \<and> \<not> isPenaltyShoot s then s\<lparr>isPenaltyShoot := True\<rparr>
      else s)"

text \<open>
  Lines 331 to 340, the penalty of our own robot. \<open>gcRobotID\<close> is the \<^verbatim>\<open>int\<close> the
  code converts the result of \<^verbatim>\<open>getGCRobotID\<close> to.
\<close>

definition handlePenalties :: "Constants \<Rightarrow> RoboCupGameControlData \<Rightarrow> int \<Rightarrow> 16 word \<Rightarrow> 'w::len RefereeState \<Rightarrow> 'w RefereeState" where
  "handlePenalties K data teamIndex rid s =
     (let gcRobotID = sint (getGCRobotID K rid)
      in if gcRobotID \<noteq> - 1
         then (let s1 = s\<lparr>remainingPenalizedTime :=
                            secsTillUnpenalised (players (teams data ! nat teamIndex) ! nat gcRobotID)\<rparr>
               in if remainingPenalizedTime s1 > 0
                  then s1\<lparr>isPenalized := True\<rparr>
                  else s1\<lparr>isPenalized := False, remainingPenalizedTime := 0\<rparr>)
         else s)"

text \<open>Everything the handler does to \<^verbatim>\<open>state\<close> once the team index is known, in the code's order.\<close>

definition applyPacket :: "Constants \<Rightarrow> RoboCupGameControlData \<Rightarrow> int \<Rightarrow> 16 word \<Rightarrow> 'w::len RefereeState \<Rightarrow> 'w RefereeState" where
  "applyPacket K data teamIndex rid s =
     handlePenalties K data teamIndex rid
       (adjustPenaltyShoot K data
         (adjustGameState K data
           (adjustTeamColor K data teamIndex
             (adjustKickOff data teamIndex
               (handleDropBall data
                 (adjustScores data teamIndex
                   (newState data teamIndex s)))))))"

text \<open>
  The handler: the version test (which disables the referee), the enabled test, the
  recipient check, the steps, and \<^verbatim>\<open>GCinitialized = true\<close>.
\<close>

definition handleRefereeMessage :: "Constants \<Rightarrow> RoboCupGameControlData \<Rightarrow> 'w::len RefereeGameController \<Rightarrow> 'w RefereeGameController" where
  "handleRefereeMessage K data c =
     (if version data \<noteq> STRUCT_VERSION K
      then c\<lparr>refereeEnabled := False,
             reports := reports c @ [VersionMismatch (version data) (STRUCT_VERSION K)]\<rparr>
      else if \<not> refereeEnabled c then c
      else (case findTeamIndex data (teamID (refState c)) of
              None \<Rightarrow> c
            | Some teamIndex \<Rightarrow>
                c\<lparr>refState := applyPacket K data teamIndex (robotID c) (refState c),
                  GCinitialized := True\<rparr>))"

section \<open>The receive loop of the referee client\<close>

text \<open>
  \<^verbatim>\<open>strncmp(s1, s2, n) == 0\<close> on byte arrays: at most \<open>n\<close> characters are compared, and
  the comparison ends after a NUL that both arrays have at the same place. The receive
  buffer has 1500 bytes and a literal ends with a NUL, so the C code never compares past
  the end of an array; for lists that end earlier the answer here is no.
\<close>

fun strncmp_eq :: "string \<Rightarrow> string \<Rightarrow> nat \<Rightarrow> bool" where
  "strncmp_eq s1 s2 0 = True"
| "strncmp_eq (a # s1) (b # s2) (Suc n) = (a = b \<and> (a = CHR 0x00 \<or> strncmp_eq s1 s2 n))"
| "strncmp_eq s1 s2 (Suc n) = False"

text \<open>A string literal of the code: its characters and the terminating NUL.\<close>

definition literal :: "string \<Rightarrow> string" where
  "literal s = s @ [CHR 0x00]"

text \<open>\<^verbatim>\<open>strncpy(dst, src, 4)\<close> into a zeroed array of four characters.\<close>

definition strncpy4 :: "string \<Rightarrow> string" where
  "strncpy4 src = take 4 (takeWhile (\<lambda>ch. ch \<noteq> CHR 0x00) src @ replicate 4 (CHR 0x00))"

text \<open>The status packet the loop answers with.\<close>

definition aliveStatus :: "Constants \<Rightarrow> 'w::len RefereeGameController \<Rightarrow> RoboCupGameControlReturnData" where
  "aliveStatus K c =
     \<lparr>ret_header = strncpy4 (literal (GAMECONTROLLER_RETURN_STRUCT_HEADER K)),
      ret_version = GAMECONTROLLER_RETURN_STRUCT_VERSION K,
      team = teamID (refState c),
      player = sint (robotID c),
      message = GAMECONTROLLER_RETURN_MSG_ALIVE K\<rparr>"

text \<open>
  One pass of the loop of \<^verbatim>\<open>threadMain\<close> for which \<^verbatim>\<open>waitForData\<close> succeeded. The datagram
  is the result of \<^verbatim>\<open>transport->read\<close>: the count \<open>received\<close> and the buffer, seen
  through the struct it is cast to (\<open>header\<close> is its first four bytes).
\<close>

definition threadMainStep :: "Constants \<Rightarrow> int \<times> RoboCupGameControlData \<Rightarrow> 'w::len RefereeGameController \<Rightarrow> 'w RefereeGameController" where
  "threadMainStep K dgram c =
     (let received = fst dgram; buffer = snd dgram
      in if received \<le> 0 then c\<lparr>reports := reports c @ [RecvError]\<rparr>
         else if strncmp_eq (header buffer) (literal (STRUCT_HEADER K)) 4
         then (if received \<noteq> sizeof_RoboCupGameControlData K
               then c\<lparr>reports := reports c @ [SizeMismatch received (sizeof_RoboCupGameControlData K)]\<rparr>
               else (let c1 = handleRefereeMessage K buffer c
                     in c1\<lparr>written := written c1 @ [(aliveStatus K c1, gcPort c1)]\<rparr>))
         else c)"

text \<open>The loop over the datagrams that arrive, one after the other.\<close>

definition threadMain :: "Constants \<Rightarrow> (int \<times> RoboCupGameControlData) list \<Rightarrow> 'w::len RefereeGameController \<Rightarrow> 'w RefereeGameController" where
  "threadMain K dgrams c = foldl (\<lambda>c' d. threadMainStep K d c') c dgrams"

section \<open>The receiver of GameCtrl\<close>

text \<open>
  The members of \<^verbatim>\<open>GameCtrl\<close> that \<^verbatim>\<open>receive\<close> reads and writes: whether the socket
  pointer \<^verbatim>\<open>udp\<close> is set, the team number and the local copy of the packet.
\<close>

record GameCtrl =
  udp :: bool
  ctlTeamNumber :: int
  gameCtrlData :: RoboCupGameControlData

text \<open>
  \<^verbatim>\<open>!memcmp(&buffer, GAMECONTROLLER_STRUCT_HEADER, 4)\<close>: four bytes, NUL or not. For an
  array of fewer than four bytes, which the C code would read past, the answer is no.
\<close>

definition memcmp4_eq :: "string \<Rightarrow> string \<Rightarrow> bool" where
  "memcmp4_eq s1 s2 = (length s1 \<ge> 4 \<and> length s2 \<ge> 4 \<and> take 4 s1 = take 4 s2)"

text \<open>The test a packet has to pass to be accepted.\<close>

definition accepts :: "Constants \<Rightarrow> GameCtrl \<Rightarrow> int \<times> RoboCupGameControlData \<Rightarrow> bool" where
  "accepts K g rd =
     (let size = fst rd; buffer = snd rd
      in size = sizeof_RoboCupGameControlData K
         \<and> memcmp4_eq (header buffer) (literal (GAMECONTROLLER_STRUCT_HEADER K))
         \<and> version buffer = GAMECONTROLLER_STRUCT_VERSION K
         \<and> ctlTeamNumber g \<noteq> 0
         \<and> (teamNumber (teams buffer ! 0) = ctlTeamNumber g
            \<or> teamNumber (teams buffer ! 1) = ctlTeamNumber g))"

text \<open>
  The loop of \<^verbatim>\<open>receive\<close> over the results of \<^verbatim>\<open>udp->read\<close>; it ends at the first read
  that returns no data (a size that is not positive, or no further result). The
  flag is the local \<^verbatim>\<open>received\<close>.
\<close>

fun receiveLoop :: "Constants \<Rightarrow> (int \<times> RoboCupGameControlData) list \<Rightarrow> bool \<times> GameCtrl \<Rightarrow> bool \<times> GameCtrl" where
  "receiveLoop K [] rg = rg"
| "receiveLoop K (rd # rds) (received, g) =
     (if udp g \<and> fst rd > 0
      then (if accepts K g rd
            then receiveLoop K rds (True, g\<lparr>gameCtrlData := snd rd\<rparr>)
            else receiveLoop K rds (received, g))
      else (received, g))"

definition receive :: "Constants \<Rightarrow> (int \<times> RoboCupGameControlData) list \<Rightarrow> GameCtrl \<Rightarrow> bool \<times> GameCtrl" where
  "receive K rds g = receiveLoop K rds (False, g)"

section \<open>Auxiliary notions\<close>

text \<open>
  The numeric codes of the game states are pairwise different, and so are the two codes
  of the secondary state the handler tests.
\<close>

definition codesDistinct :: "Constants \<Rightarrow> bool" where
  "codesDistinct K \<longleftrightarrow>
     distinct [STATE_INITIAL K, STATE_READY K, STATE_SET K, STATE_PLAYING K, STATE_FINISHED K]
     \<and> STATE2_NORMAL K \<noteq> STATE2_PENALTYSHOOT K"

text \<open>The test of \<^verbatim>\<open>getGCRobotID\<close> on the robot's identifier.\<close>

definition inRange :: "Constants \<Rightarrow> 16 word \<Rightarrow> bool" where
  "inRange K rid \<longleftrightarrow> 0 < sint rid \<and> sint rid \<le> MAX_NUM_PLAYERS K"

text \<open>The entry of the packet that the penalty of the robot \<open>rid\<close> is read from.\<close>

definition ownSecs :: "RoboCupGameControlData \<Rightarrow> int \<Rightarrow> 16 word \<Rightarrow> int" where
  "ownSecs d ti rid = secsTillUnpenalised (players (teams d ! nat ti) ! nat (sint rid - 1))"

text \<open>A drop ball kick off is a kick off for either side.\<close>

definition kickOffInv :: "'w::len RefereeState \<Rightarrow> bool" where
  "kickOffInv s \<longleftrightarrow> (kickOffMode s = KICKOFF_DROPBALL \<longrightarrow> kickOffSide s = KICKOFFSIDE_ANY)"

text \<open>The value each step of the handler leaves in the field it writes (used in the proofs).\<close>

definition gameStateAfter :: "Constants \<Rightarrow> RoboCupGameControlData \<Rightarrow> GameState \<Rightarrow> GameState" where
  "gameStateAfter K d g = (if state d = STATE_INITIAL K \<and> g \<noteq> GAME_STOPPED then GAME_STOPPED
      else if state d = STATE_READY K \<and> g \<noteq> GAME_READY then GAME_READY
      else if state d = STATE_SET K \<and> g \<noteq> GAME_SET then GAME_SET
      else if state d = STATE_PLAYING K \<and> g \<noteq> GAME_STARTED then GAME_STARTED
      else if state d = STATE_FINISHED K \<and> g \<noteq> GAME_STOPPED then GAME_STOPPED
      else g)"

definition penaltyShootAfter :: "Constants \<Rightarrow> RoboCupGameControlData \<Rightarrow> bool \<Rightarrow> bool" where
  "penaltyShootAfter K d b = (if secGameState d = STATE2_NORMAL K \<and> b then False
      else if secGameState d = STATE2_PENALTYSHOOT K \<and> \<not> b then True else b)"

definition dropBallAfter :: "RoboCupGameControlData \<Rightarrow> KickOffMode \<times> KickOffSide \<Rightarrow> KickOffMode \<times> KickOffSide" where
  "dropBallAfter d ms = (if kickOffTeam d = 2 \<and> fst ms \<noteq> KICKOFF_DROPBALL
      then (KICKOFF_DROPBALL, KICKOFFSIDE_ANY) else ms)"

definition kickOffAfter :: "RoboCupGameControlData \<Rightarrow> int \<Rightarrow> KickOffMode \<times> KickOffSide \<Rightarrow> KickOffMode \<times> KickOffSide" where
  "kickOffAfter d ti ms =
     (if (kickOffTeam d = ti \<and> snd ms \<noteq> KICKOFFSIDE_ME)
       \<or> (kickOffTeam d = 1 - ti \<and> snd ms \<noteq> KICKOFFSIDE_OPPONENT)
      then (KICKOFF_REGULAR, if kickOffTeam d = ti then KICKOFFSIDE_ME else KICKOFFSIDE_OPPONENT)
      else ms)"

text \<open>The state after every step but the penalty lookup.\<close>

definition beforePenalties :: "Constants \<Rightarrow> RoboCupGameControlData \<Rightarrow> int \<Rightarrow> 'w::len RefereeState \<Rightarrow> 'w RefereeState" where
  "beforePenalties K d ti s =
     s\<lparr>counter := counter s + 1,
       opponentID := teamNumber (teams d ! nat (1 - ti)),
       teamScore := score (teams d ! nat ti),
       opponentScore := score (teams d ! nat (1 - ti)),
       kickOffMode := fst (kickOffAfter d ti (dropBallAfter d (kickOffMode s, kickOffSide s))),
       kickOffSide := snd (kickOffAfter d ti (dropBallAfter d (kickOffMode s, kickOffSide s))),
       teamColor := (if teamColour (teams d ! nat ti) = TEAM_MAGENTA K then Magenta else Cyan),
       gameState := gameStateAfter K d (gameState s),
       isPenaltyShoot := penaltyShootAfter K d (isPenaltyShoot s)\<rparr>"

text \<open>The handler, over a sequence of packets.\<close>

definition handleMessages :: "Constants \<Rightarrow> RoboCupGameControlData list \<Rightarrow> 'w::len RefereeGameController \<Rightarrow> 'w RefereeGameController" where
  "handleMessages K ds c = foldl (\<lambda>c' d. handleRefereeMessage K d c') c ds"

text \<open>
  A packet as the cast yields it: four header bytes, two team records, and
  \<open>MAX_NUM_PLAYERS\<close> player entries in each.
\<close>

definition wellFormed :: "Constants \<Rightarrow> RoboCupGameControlData \<Rightarrow> bool" where
  "wellFormed K d \<longleftrightarrow>
     length (header d) = 4 \<and> length (teams d) = 2
     \<and> list_all (\<lambda>t. int (length (players t)) = MAX_NUM_PLAYERS K) (teams d)"

subsection \<open>A concrete match\<close>

text \<open>
  Values as in the RoboCup game controller protocol, for the concrete instances below:
  team 2 (magenta, one goal) in slot 0 plays team 5, the game is running, and the robot of
  the controller is number 2 of team 2. The kick off team of the packet and the penalty
  seconds of player 2 of team 2 are parameters.
\<close>

definition exampleConstants :: Constants where
  "exampleConstants =
     \<lparr>STRUCT_HEADER = ''RGme'', STRUCT_VERSION = 7, MAX_NUM_PLAYERS = 11, TEAM_MAGENTA = 1,
      STATE_INITIAL = 0, STATE_READY = 1, STATE_SET = 2, STATE_PLAYING = 3, STATE_FINISHED = 4,
      STATE2_NORMAL = 0, STATE2_PENALTYSHOOT = 1,
      sizeof_RoboCupGameControlData = 116,
      GAMECONTROLLER_RETURN_STRUCT_HEADER = ''RGrt'', GAMECONTROLLER_RETURN_STRUCT_VERSION = 1,
      GAMECONTROLLER_RETURN_MSG_ALIVE = 0,
      GAMECONTROLLER_STRUCT_HEADER = ''RGme'', GAMECONTROLLER_STRUCT_VERSION = 7\<rparr>"

definition examplePlayers :: "int \<Rightarrow> RobotInfo list" where
  "examplePlayers secs =
     [\<lparr>secsTillUnpenalised = 0\<rparr>, \<lparr>secsTillUnpenalised = secs\<rparr>] @ replicate 9 \<lparr>secsTillUnpenalised = 0\<rparr>"

definition examplePacket :: "int \<Rightarrow> int \<Rightarrow> RoboCupGameControlData" where
  "examplePacket kickOff secs =
     \<lparr>header = ''RGme'', version = 7, state = 3, kickOffTeam = kickOff, secGameState = 0,
      teams = [\<lparr>teamNumber = 2, teamColour = 1, score = 1, players = examplePlayers secs\<rparr>,
               \<lparr>teamNumber = 5, teamColour = 0, score = 0, players = examplePlayers 0\<rparr>]\<rparr>"

definition exampleState :: "32 RefereeState" where
  "exampleState =
     \<lparr>teamID = 2, teamColor = Cyan, counter = 0, opponentID = 0, teamScore = 0, opponentScore = 0,
      kickOffMode = KICKOFF_REGULAR, kickOffSide = KICKOFFSIDE_OPPONENT, gameState = GAME_STOPPED,
      isPenaltyShoot = False, remainingPenalizedTime = 0, isPenalized = False\<rparr>"

definition exampleController :: "32 RefereeGameController" where
  "exampleController =
     \<lparr>refState = exampleState, refereeEnabled = True, GCinitialized = False, gcPort = 3838,
      robotID = 2, reports = [], written = []\<rparr>"

text \<open>A receiver of GameCtrl for team 2, its stored packet zeroed as \<^verbatim>\<open>init\<close> leaves it.\<close>

definition exampleGameCtrl :: GameCtrl where
  "exampleGameCtrl =
     \<lparr>udp = True, ctlTeamNumber = 2,
      gameCtrlData = \<lparr>header = replicate 4 (CHR 0x00), version = 0, state = 0, kickOffTeam = 0,
        secGameState = 0,
        teams = replicate 2 \<lparr>teamNumber = 0, teamColour = 0, score = 0, players = examplePlayers 0\<rparr>\<rparr>\<rparr>"

section \<open>Properties of the steps\<close>

lemma chain_gameState:
  "(if c1 then s\<lparr>gameState := a1\<rparr> else if c2 then s\<lparr>gameState := a2\<rparr>
    else if c3 then s\<lparr>gameState := a3\<rparr> else if c4 then s\<lparr>gameState := a4\<rparr>
    else if c5 then s\<lparr>gameState := a5\<rparr> else s)
   = s\<lparr>gameState := (if c1 then a1 else if c2 then a2 else if c3 then a3 else if c4 then a4
                        else if c5 then a5 else gameState s)\<rparr>"
  by simp

lemma adjustGameState_nf: "adjustGameState K d s = s\<lparr>gameState := gameStateAfter K d (gameState s)\<rparr>"
  unfolding adjustGameState_def gameStateAfter_def by (rule chain_gameState)

lemma chain_penaltyShoot:
  "(if c1 then s\<lparr>isPenaltyShoot := a1\<rparr> else if c2 then s\<lparr>isPenaltyShoot := a2\<rparr> else s)
   = s\<lparr>isPenaltyShoot := (if c1 then a1 else if c2 then a2 else isPenaltyShoot s)\<rparr>"
  by simp

lemma adjustPenaltyShoot_nf:
  "adjustPenaltyShoot K d s = s\<lparr>isPenaltyShoot := penaltyShootAfter K d (isPenaltyShoot s)\<rparr>"
  unfolding adjustPenaltyShoot_def penaltyShootAfter_def by (rule chain_penaltyShoot)

lemma chain_kickOff:
  "(if c then s\<lparr>kickOffMode := m, kickOffSide := sd\<rparr> else s)
   = s\<lparr>kickOffMode := fst (if c then (m, sd) else (kickOffMode s, kickOffSide s)),
       kickOffSide := snd (if c then (m, sd) else (kickOffMode s, kickOffSide s))\<rparr>"
  by simp

lemma handleDropBall_nf:
  "handleDropBall d s =
     s\<lparr>kickOffMode := fst (dropBallAfter d (kickOffMode s, kickOffSide s)),
       kickOffSide := snd (dropBallAfter d (kickOffMode s, kickOffSide s))\<rparr>"
  unfolding handleDropBall_def dropBallAfter_def fst_conv snd_conv by (rule chain_kickOff)

lemma adjustKickOff_nf:
  "adjustKickOff d ti s =
     s\<lparr>kickOffMode := fst (kickOffAfter d ti (kickOffMode s, kickOffSide s)),
       kickOffSide := snd (kickOffAfter d ti (kickOffMode s, kickOffSide s))\<rparr>"
  unfolding adjustKickOff_def kickOffAfter_def fst_conv snd_conv by (rule chain_kickOff)

lemma adjustScores_nf:
  "adjustScores d ti s = s\<lparr>teamScore := score (teams d ! nat ti), opponentScore := score (teams d ! nat (1 - ti))\<rparr>"
  by (simp add: adjustScores_def Let_def)

lemma adjustTeamColor_nf:
  "adjustTeamColor K d ti s = s\<lparr>teamColor := (if teamColour (teams d ! nat ti) = TEAM_MAGENTA K then Magenta else Cyan)\<rparr>"
  by (simp add: adjustTeamColor_def Let_def)

lemma sint_dec: "0 < sint (x::16 word) \<Longrightarrow> sint (x - 1) = sint x - 1"
proof -
  assume pos: "0 < sint x"
  have up: "sint x < 2 ^ (LENGTH(16) - 1)" by (rule sint_lt)
  have "sint (x - 1) = signed_take_bit (LENGTH(16) - 1) (sint x - sint (1::16 word))"
    by (rule sint_word_diff)
  also have "sint (1::16 word) = 1" by simp
  also have "signed_take_bit (LENGTH(16) - 1) (sint x - 1) = sint x - 1"
    using pos up by (intro signed_take_bit_int_eq_self) simp_all
  finally show ?thesis .
qed

lemma getGCRobotID_in: "inRange K rid \<Longrightarrow> sint (getGCRobotID K rid) = sint rid - 1"
  by (simp add: getGCRobotID_def inRange_def sint_dec)

lemma getGCRobotID_out: "\<not> inRange K rid \<Longrightarrow> sint (getGCRobotID K rid) = - 1"
  by (auto simp add: getGCRobotID_def inRange_def)

lemma handlePenalties_in:
  assumes "inRange K rid"
  shows "handlePenalties K d ti rid s =
           s\<lparr>remainingPenalizedTime := max 0 (ownSecs d ti rid), isPenalized := 0 < ownSecs d ti rid\<rparr>"
proof -
  have g: "sint (getGCRobotID K rid) = sint rid - 1" using assms by (rule getGCRobotID_in)
  have ne: "sint rid - 1 \<noteq> - 1" using assms by (simp add: inRange_def)
  show ?thesis
  proof (cases "0 < ownSecs d ti rid")
    case True
    then show ?thesis using ne by (simp add: handlePenalties_def g Let_def ownSecs_def)
  next
    case False
    then show ?thesis using ne by (simp add: handlePenalties_def g Let_def ownSecs_def)
  qed
qed

lemma handlePenalties_out: "\<not> inRange K rid \<Longrightarrow> handlePenalties K d ti rid s = s"
  by (simp add: handlePenalties_def getGCRobotID_out)

lemma applyPacket_steps:
  "applyPacket K d ti rid s = handlePenalties K d ti rid (beforePenalties K d ti s)"
  by (simp add: applyPacket_def beforePenalties_def newState_def adjustScores_nf handleDropBall_nf
      adjustKickOff_nf adjustTeamColor_nf adjustGameState_nf adjustPenaltyShoot_nf)

lemma findTeamIndex_range: "findTeamIndex d tid = Some ti \<Longrightarrow> ti = 0 \<or> ti = 1"
  by (auto simp: findTeamIndex_def split: if_splits)

lemma findTeamIndex_None:
  "findTeamIndex d tid = None \<longleftrightarrow> teamNumber (teams d ! 0) \<noteq> tid \<and> teamNumber (teams d ! 1) \<noteq> tid"
  by (simp add: findTeamIndex_def)

lemma handle_applied:
  assumes "version d = STRUCT_VERSION K" "refereeEnabled c"
    "findTeamIndex d (teamID (refState c)) = Some ti"
  shows "handleRefereeMessage K d c =
           c\<lparr>refState := applyPacket K d ti (robotID c) (refState c), GCinitialized := True\<rparr>"
  using assms by (simp add: handleRefereeMessage_def)

lemma handle_disabled:
  "\<not> refereeEnabled c \<Longrightarrow> version d = STRUCT_VERSION K \<Longrightarrow> handleRefereeMessage K d c = c"
  by (simp add: handleRefereeMessage_def)

lemma handle_mismatch:
  "version d \<noteq> STRUCT_VERSION K \<Longrightarrow>
     handleRefereeMessage K d c =
       c\<lparr>refereeEnabled := False,
         reports := reports c @ [VersionMismatch (version d) (STRUCT_VERSION K)]\<rparr>"
  by (simp add: handleRefereeMessage_def)

lemma kickOff_dropBall_value:
  assumes "kickOffTeam d = 2" "ti = 0 \<or> ti = 1" "m = KICKOFF_DROPBALL \<longrightarrow> sd = KICKOFFSIDE_ANY"
  shows "kickOffAfter d ti (dropBallAfter d (m, sd)) = (KICKOFF_DROPBALL, KICKOFFSIDE_ANY)"
  using assms by (auto simp: kickOffAfter_def dropBallAfter_def)

lemma kickOff_inv_value:
  assumes "m = KICKOFF_DROPBALL \<longrightarrow> sd = KICKOFFSIDE_ANY"
  shows "fst (kickOffAfter d ti (dropBallAfter d (m, sd))) = KICKOFF_DROPBALL
         \<longrightarrow> snd (kickOffAfter d ti (dropBallAfter d (m, sd))) = KICKOFFSIDE_ANY"
  using assms by (auto simp: kickOffAfter_def dropBallAfter_def)

lemma kickOff_idem_value:
  assumes "ti = 0 \<or> ti = 1"
  shows "kickOffAfter d ti (dropBallAfter d (kickOffAfter d ti (dropBallAfter d ms)))
         = kickOffAfter d ti (dropBallAfter d ms)"
proof -
  obtain m sd where ms: "ms = (m, sd)" by (cases ms)
  consider (two) "kickOffTeam d = 2" | (me) "kickOffTeam d = ti" | (opp) "kickOffTeam d = 1 - ti"
    | (other) "kickOffTeam d \<noteq> 2" "kickOffTeam d \<noteq> ti" "kickOffTeam d \<noteq> 1 - ti"
    by blast
  then show ?thesis
  proof cases
    case two
    with assms show ?thesis by (auto simp: ms kickOffAfter_def dropBallAfter_def)
  next
    case me
    with assms show ?thesis by (auto simp: ms kickOffAfter_def dropBallAfter_def)
  next
    case opp
    with assms show ?thesis by (auto simp: ms kickOffAfter_def dropBallAfter_def)
  next
    case other
    then show ?thesis by (simp add: ms kickOffAfter_def dropBallAfter_def)
  qed
qed

lemma penaltyShootAfter_idem:
  "STATE2_NORMAL K \<noteq> STATE2_PENALTYSHOOT K \<Longrightarrow>
     penaltyShootAfter K d (penaltyShootAfter K d b) = penaltyShootAfter K d b"
  by (auto simp: penaltyShootAfter_def)

lemma gameStateAfter_cases:
  assumes "codesDistinct K"
  shows "(\<forall>g. gameStateAfter K d g = GAME_STOPPED) \<or> (\<forall>g. gameStateAfter K d g = GAME_READY)
       \<or> (\<forall>g. gameStateAfter K d g = GAME_SET) \<or> (\<forall>g. gameStateAfter K d g = GAME_STARTED)
       \<or> (\<forall>g. gameStateAfter K d g = g)"
proof -
  from assms have ne: "STATE_INITIAL K \<noteq> STATE_READY K" "STATE_INITIAL K \<noteq> STATE_SET K"
    "STATE_INITIAL K \<noteq> STATE_PLAYING K" "STATE_READY K \<noteq> STATE_SET K"
    "STATE_READY K \<noteq> STATE_PLAYING K" "STATE_READY K \<noteq> STATE_FINISHED K"
    "STATE_SET K \<noteq> STATE_PLAYING K" "STATE_SET K \<noteq> STATE_FINISHED K"
    "STATE_PLAYING K \<noteq> STATE_FINISHED K"
    by (simp_all add: codesDistinct_def)
  consider (i) "state d = STATE_INITIAL K" | (r) "state d = STATE_READY K"
    | (s) "state d = STATE_SET K" | (p) "state d = STATE_PLAYING K"
    | (f) "state d = STATE_FINISHED K"
    | (o) "state d \<noteq> STATE_INITIAL K" "state d \<noteq> STATE_READY K" "state d \<noteq> STATE_SET K"
          "state d \<noteq> STATE_PLAYING K" "state d \<noteq> STATE_FINISHED K"
    by blast
  then show ?thesis
  proof cases
    case i
    with ne have "\<forall>g. gameStateAfter K d g = GAME_STOPPED" by (simp add: gameStateAfter_def)
    then show ?thesis by blast
  next
    case r
    with ne have "\<forall>g. gameStateAfter K d g = GAME_READY" by (simp add: gameStateAfter_def)
    then show ?thesis by blast
  next
    case s
    with ne have "\<forall>g. gameStateAfter K d g = GAME_SET" by (simp add: gameStateAfter_def)
    then show ?thesis by blast
  next
    case p
    with ne have "\<forall>g. gameStateAfter K d g = GAME_STARTED" by (simp add: gameStateAfter_def)
    then show ?thesis by blast
  next
    case f
    with ne have "\<forall>g. gameStateAfter K d g = GAME_STOPPED" by (simp add: gameStateAfter_def)
    then show ?thesis by blast
  next
    case o
    then have "\<forall>g. gameStateAfter K d g = g" by (simp add: gameStateAfter_def)
    then show ?thesis by blast
  qed
qed

lemma gameStateAfter_idem:
  assumes "codesDistinct K"
  shows "gameStateAfter K d (gameStateAfter K d g) = gameStateAfter K d g"
  using gameStateAfter_cases [OF assms, of d] by metis

lemma beforePenalties_idem:
  assumes "codesDistinct K" "ti = 0 \<or> ti = 1"
  shows "beforePenalties K d ti (beforePenalties K d ti s)
         = (beforePenalties K d ti s)\<lparr>counter := counter (beforePenalties K d ti s) + 1\<rparr>"
proof -
  from assms(1) have ps: "STATE2_NORMAL K \<noteq> STATE2_PENALTYSHOOT K" by (simp add: codesDistinct_def)
  show ?thesis
    by (simp add: beforePenalties_def gameStateAfter_idem [OF assms(1)]
        penaltyShootAfter_idem [OF ps] kickOff_idem_value [OF assms(2)])
qed

lemma applyPacket_kickOff:
  "kickOffMode (applyPacket K d ti rid s) = fst (kickOffAfter d ti (dropBallAfter d (kickOffMode s, kickOffSide s)))
   \<and> kickOffSide (applyPacket K d ti rid s) = snd (kickOffAfter d ti (dropBallAfter d (kickOffMode s, kickOffSide s)))"
proof (cases "inRange K rid")
  case True
  then show ?thesis by (simp add: applyPacket_steps handlePenalties_in beforePenalties_def)
next
  case False
  then show ?thesis by (simp add: applyPacket_steps handlePenalties_out beforePenalties_def)
qed

lemma applyPacket_teamColor:
  "teamColor (applyPacket K d ti rid s) =
     (if teamColour (teams d ! nat ti) = TEAM_MAGENTA K then Magenta else Cyan)"
proof (cases "inRange K rid")
  case True
  then show ?thesis by (simp add: applyPacket_steps handlePenalties_in beforePenalties_def)
next
  case False
  then show ?thesis by (simp add: applyPacket_steps handlePenalties_out beforePenalties_def)
qed

lemma applyPacket_teamID: "teamID (applyPacket K d ti rid s) = teamID s"
proof (cases "inRange K rid")
  case True
  then show ?thesis by (simp add: applyPacket_steps handlePenalties_in beforePenalties_def)
next
  case False
  then show ?thesis by (simp add: applyPacket_steps handlePenalties_out beforePenalties_def)
qed

lemma applyPacket_kickOffInv:
  assumes "kickOffInv s"
  shows "kickOffInv (applyPacket K d ti rid s)"
  using assms kickOff_inv_value [of "kickOffMode s" "kickOffSide s" d ti]
  by (simp add: kickOffInv_def applyPacket_kickOff)

lemma applyPacket_idem:
  assumes "codesDistinct K" "ti = 0 \<or> ti = 1"
  shows "applyPacket K d ti rid (applyPacket K d ti rid s)
         = (applyPacket K d ti rid s)\<lparr>counter := counter (applyPacket K d ti rid s) + 1\<rparr>"
proof (cases "inRange K rid")
  case True
  have "applyPacket K d ti rid (applyPacket K d ti rid s)
        = (beforePenalties K d ti (beforePenalties K d ti s))
            \<lparr>remainingPenalizedTime := max 0 (ownSecs d ti rid), isPenalized := 0 < ownSecs d ti rid\<rparr>"
    by (simp add: applyPacket_steps handlePenalties_in [OF True] beforePenalties_def)
  also have "\<dots> = (applyPacket K d ti rid s)\<lparr>counter := counter (applyPacket K d ti rid s) + 1\<rparr>"
    by (simp add: beforePenalties_idem [OF assms] applyPacket_steps handlePenalties_in [OF True])
  finally show ?thesis .
next
  case False
  then show ?thesis
    by (simp add: applyPacket_steps handlePenalties_out beforePenalties_idem [OF assms])
qed

lemma lookup_in_bounds:
  assumes "wellFormed K d" "findTeamIndex d tid = Some ti" "inRange K rid"
  shows "nat ti < length (teams d)
       \<and> nat (sint (getGCRobotID K rid)) < length (players (teams d ! nat ti))"
proof -
  from assms(2) have ti: "ti = 0 \<or> ti = 1" by (rule findTeamIndex_range)
  with assms(1) have 1: "nat ti < length (teams d)" by (auto simp: wellFormed_def)
  from assms(1) have "\<forall>t \<in> set (teams d). int (length (players t)) = MAX_NUM_PLAYERS K"
    by (simp add: wellFormed_def list_all_iff)
  with 1 have "int (length (players (teams d ! nat ti))) = MAX_NUM_PLAYERS K" by simp
  with assms(3) have "nat (sint rid - 1) < length (players (teams d ! nat ti))"
    unfolding inRange_def by linarith
  with 1 show ?thesis by (simp add: getGCRobotID_in [OF assms(3)])
qed

lemma handle_frame:
  "written (handleRefereeMessage K d c) = written c
   \<and> gcPort (handleRefereeMessage K d c) = gcPort c
   \<and> robotID (handleRefereeMessage K d c) = robotID c
   \<and> teamID (refState (handleRefereeMessage K d c)) = teamID (refState c)"
proof (cases "version d = STRUCT_VERSION K \<and> refereeEnabled c")
  case False
  then show ?thesis by (auto simp: handleRefereeMessage_def)
next
  case True
  show ?thesis
  proof (cases "findTeamIndex d (teamID (refState c))")
    case None
    then show ?thesis using True by (simp add: handleRefereeMessage_def)
  next
    case (Some ti)
    with True show ?thesis by (simp add: handle_applied applyPacket_teamID)
  qed
qed

lemma handle_when_disabled:
  assumes "\<not> refereeEnabled c"
  shows "\<not> refereeEnabled (handleRefereeMessage K d c)
       \<and> refState (handleRefereeMessage K d c) = refState c
       \<and> GCinitialized (handleRefereeMessage K d c) = GCinitialized c"
  using assms by (simp add: handleRefereeMessage_def)

lemma handleMessages_when_disabled:
  "\<not> refereeEnabled c \<Longrightarrow>
     \<not> refereeEnabled (handleMessages K ds c)
     \<and> refState (handleMessages K ds c) = refState c
     \<and> GCinitialized (handleMessages K ds c) = GCinitialized c"
proof (induction ds arbitrary: c)
  case Nil
  then show ?case by (simp add: handleMessages_def)
next
  case (Cons d ds)
  from handle_when_disabled [OF Cons.prems, of K d]
  have dis: "\<not> refereeEnabled (handleRefereeMessage K d c)"
    and st: "refState (handleRefereeMessage K d c) = refState c"
    and gi: "GCinitialized (handleRefereeMessage K d c) = GCinitialized c"
    by simp_all
  have "handleMessages K (d # ds) c = handleMessages K ds (handleRefereeMessage K d c)"
    by (simp add: handleMessages_def)
  with Cons.IH [OF dis] st gi show ?case by simp
qed

lemma step_when_disabled:
  assumes "\<not> refereeEnabled c"
  shows "\<not> refereeEnabled (threadMainStep K dg c)
       \<and> refState (threadMainStep K dg c) = refState c
       \<and> GCinitialized (threadMainStep K dg c) = GCinitialized c"
  using handle_when_disabled [OF assms, of K "snd dg"] assms
  by (simp add: threadMainStep_def Let_def)

lemma threadMain_when_disabled:
  "\<not> refereeEnabled c \<Longrightarrow>
     \<not> refereeEnabled (threadMain K dgs c)
     \<and> refState (threadMain K dgs c) = refState c
     \<and> GCinitialized (threadMain K dgs c) = GCinitialized c"
proof (induction dgs arbitrary: c)
  case Nil
  then show ?case by (simp add: threadMain_def)
next
  case (Cons dg dgs)
  from step_when_disabled [OF Cons.prems, of K dg]
  have dis: "\<not> refereeEnabled (threadMainStep K dg c)"
    and st: "refState (threadMainStep K dg c) = refState c"
    and gi: "GCinitialized (threadMainStep K dg c) = GCinitialized c"
    by simp_all
  have "threadMain K (dg # dgs) c = threadMain K dgs (threadMainStep K dg c)"
    by (simp add: threadMain_def)
  with Cons.IH [OF dis] st gi show ?case by simp
qed

lemma step_recv_error:
  "received \<le> 0 \<Longrightarrow>
     threadMainStep K (received, buffer) c = c\<lparr>reports := reports c @ [RecvError]\<rparr>"
  by (simp add: threadMainStep_def)

lemma step_foreign:
  "0 < received \<Longrightarrow> \<not> strncmp_eq (header buffer) (literal (STRUCT_HEADER K)) 4 \<Longrightarrow>
     threadMainStep K (received, buffer) c = c"
  by (simp add: threadMainStep_def)

lemma step_size_mismatch:
  "0 < received \<Longrightarrow> strncmp_eq (header buffer) (literal (STRUCT_HEADER K)) 4 \<Longrightarrow>
   received \<noteq> sizeof_RoboCupGameControlData K \<Longrightarrow>
     threadMainStep K (received, buffer) c =
       c\<lparr>reports := reports c @ [SizeMismatch received (sizeof_RoboCupGameControlData K)]\<rparr>"
  by (simp add: threadMainStep_def)

lemma step_accepted:
  "0 < received \<Longrightarrow> strncmp_eq (header buffer) (literal (STRUCT_HEADER K)) 4 \<Longrightarrow>
   received = sizeof_RoboCupGameControlData K \<Longrightarrow>
     threadMainStep K (received, buffer) c =
       (handleRefereeMessage K buffer c)
         \<lparr>written := written c @ [(aliveStatus K (handleRefereeMessage K buffer c), gcPort c)]\<rparr>"
  by (simp add: threadMainStep_def Let_def handle_frame)

lemma aliveStatus_handle:
  "aliveStatus K (handleRefereeMessage K d c) = aliveStatus K c"
  by (simp add: aliveStatus_def handle_frame)

lemma receiveLoop_rejects:
  "list_all (\<lambda>rd. \<not> accepts K g rd) rds \<Longrightarrow> receiveLoop K rds (r, g) = (r, g)"
  by (induction rds) simp_all

lemma accepts_needs_size_and_header:
  "accepts K g (sz, buffer) \<Longrightarrow>
     sz = sizeof_RoboCupGameControlData K
     \<and> memcmp4_eq (header buffer) (literal (GAMECONTROLLER_STRUCT_HEADER K))"
  by (simp add: accepts_def)

section \<open>Properties of the handler\<close>

lemmas example_defs = exampleConstants_def examplePacket_def exampleController_def exampleState_def
  examplePlayers_def

subsection \<open>The handler on the concrete match\<close>

text \<open>
  Team 2 receives a packet with team 2 (one goal, magenta) in slot 0 and team 5 in slot 1,
  state playing, kick off team 0, no penalty for player 2; then the same with 15 seconds
  of penalty for player 2.
\<close>

lemma scenario_playing:
  "handleRefereeMessage exampleConstants (examplePacket 0 0) exampleController =
     exampleController
       \<lparr>refState := \<lparr>teamID = 2, teamColor = Magenta, counter = 1, opponentID = 5, teamScore = 1,
           opponentScore = 0, kickOffMode = KICKOFF_REGULAR, kickOffSide = KICKOFFSIDE_ME,
           gameState = GAME_STARTED, isPenaltyShoot = False, remainingPenalizedTime = 0,
           isPenalized = False\<rparr>,
        GCinitialized := True\<rparr>"
  by (simp add: handleRefereeMessage_def findTeamIndex_def applyPacket_def newState_def
      adjustScores_def handleDropBall_def adjustKickOff_def adjustTeamColor_def
      adjustGameState_def adjustPenaltyShoot_def handlePenalties_def getGCRobotID_def
      example_defs)

lemma scenario_penalised:
  "refState (handleRefereeMessage exampleConstants (examplePacket 0 15) exampleController) =
     \<lparr>teamID = 2, teamColor = Magenta, counter = 1, opponentID = 5, teamScore = 1,
      opponentScore = 0, kickOffMode = KICKOFF_REGULAR, kickOffSide = KICKOFFSIDE_ME,
      gameState = GAME_STARTED, isPenaltyShoot = False, remainingPenalizedTime = 15,
      isPenalized = True\<rparr>"
  by (simp add: handleRefereeMessage_def findTeamIndex_def applyPacket_def newState_def
      adjustScores_def handleDropBall_def adjustKickOff_def adjustTeamColor_def
      adjustGameState_def adjustPenaltyShoot_def handlePenalties_def getGCRobotID_def
      example_defs)

text \<open>
  From a state that stores the drop ball mode with a side of its own, which the handler
  never produces, a packet with kick off team 2 leaves the side as it is: the drop ball
  test only fires when the mode stored is not the drop ball mode.
\<close>

lemma dropball_side_kept_when_mode_stored:
  "kickOffSide (refState (handleRefereeMessage exampleConstants (examplePacket 2 0)
      (exampleController\<lparr>refState := exampleState\<lparr>kickOffMode := KICKOFF_DROPBALL, kickOffSide := KICKOFFSIDE_ME\<rparr>\<rparr>)))
   = KICKOFFSIDE_ME"
  by (simp add: handleRefereeMessage_def findTeamIndex_def applyPacket_def newState_def
      adjustScores_def handleDropBall_def adjustKickOff_def adjustTeamColor_def
      adjustGameState_def adjustPenaltyShoot_def handlePenalties_def getGCRobotID_def
      example_defs)

text \<open>
  Claim C1. When the handler applies a packet (supported version, referee enabled, our team
  listed) whose kick off team is 2, the state afterwards has kick off mode
  \<open>KICKOFF_DROPBALL\<close> and kick off side \<open>KICKOFFSIDE_ANY\<close>, whatever regular kick off
  was stored before and whichever team slot is ours. The state before is any state
  in which a drop ball mode, if stored, is stored with side \<open>KICKOFFSIDE_ANY\<close>.
\<close>

theorem dropball_takes_precedence:
  assumes "version d = STRUCT_VERSION K" and "refereeEnabled c"
    and "findTeamIndex d (teamID (refState c)) = Some ti"
    and "kickOffTeam d = 2"
    and "kickOffInv (refState c)"
  shows "kickOffMode (refState (handleRefereeMessage K d c)) = KICKOFF_DROPBALL
       \<and> kickOffSide (refState (handleRefereeMessage K d c)) = KICKOFFSIDE_ANY"
proof -
  from assms(3) have ti: "ti = 0 \<or> ti = 1" by (rule findTeamIndex_range)
  from assms(5) have inv: "kickOffMode (refState c) = KICKOFF_DROPBALL \<longrightarrow> kickOffSide (refState c) = KICKOFFSIDE_ANY"
    by (simp add: kickOffInv_def)
  show ?thesis
    by (simp add: handle_applied [OF assms(1-3)] applyPacket_kickOff
        kickOff_dropBall_value [OF assms(4) ti inv])
qed

theorem dropball_takes_precedence_witness:
  "kickOffMode (refState (handleRefereeMessage exampleConstants (examplePacket 2 0) exampleController))
     = KICKOFF_DROPBALL
   \<and> kickOffSide (refState (handleRefereeMessage exampleConstants (examplePacket 2 0) exampleController))
     = KICKOFFSIDE_ANY"
  using dropball_takes_precedence [where K = exampleConstants and d = "examplePacket 2 0"
      and c = exampleController and ti = 0]
  by (simp add: example_defs findTeamIndex_def kickOffInv_def)

text \<open>
  Claim C3. When the game state codes are pairwise different and the handler applies a packet,
  handling the same packet a second time increments the update counter by one and leaves
  every other field of the state and of the controller as the first handling left it.
\<close>

theorem reconcile_idempotent:
  assumes "codesDistinct K"
    and "version d = STRUCT_VERSION K" and "refereeEnabled c"
    and "findTeamIndex d (teamID (refState c)) = Some ti"
  shows "handleRefereeMessage K d (handleRefereeMessage K d c) =
           (handleRefereeMessage K d c)
             \<lparr>refState := (refState (handleRefereeMessage K d c))
                 \<lparr>counter := counter (refState (handleRefereeMessage K d c)) + 1\<rparr>\<rparr>"
proof -
  let ?c1 = "handleRefereeMessage K d c"
  from assms(4) have ti: "ti = 0 \<or> ti = 1" by (rule findTeamIndex_range)
  have c1: "?c1 = c\<lparr>refState := applyPacket K d ti (robotID c) (refState c), GCinitialized := True\<rparr>"
    by (rule handle_applied [OF assms(2-4)])
  have en: "refereeEnabled ?c1" using assms(3) by (simp add: c1)
  have idx: "findTeamIndex d (teamID (refState ?c1)) = Some ti"
    using assms(4) by (simp add: c1 applyPacket_teamID)
  have "handleRefereeMessage K d ?c1 =
          ?c1\<lparr>refState := applyPacket K d ti (robotID ?c1) (refState ?c1), GCinitialized := True\<rparr>"
    by (rule handle_applied [OF assms(2) en idx])
  also have "\<dots> = ?c1\<lparr>refState := (refState ?c1)\<lparr>counter := counter (refState ?c1) + 1\<rparr>\<rparr>"
    by (simp add: c1 applyPacket_idem [OF assms(1) ti])
  finally show ?thesis .
qed

theorem reconcile_idempotent_witness:
  "handleRefereeMessage exampleConstants (examplePacket 0 15)
     (handleRefereeMessage exampleConstants (examplePacket 0 15) exampleController) =
   (handleRefereeMessage exampleConstants (examplePacket 0 15) exampleController)
     \<lparr>refState := (refState (handleRefereeMessage exampleConstants (examplePacket 0 15) exampleController))
        \<lparr>counter := counter (refState (handleRefereeMessage exampleConstants (examplePacket 0 15) exampleController)) + 1\<rparr>\<rparr>"
  using reconcile_idempotent [where K = exampleConstants and d = "examplePacket 0 15"
      and c = exampleController and ti = 0]
  by (simp add: example_defs findTeamIndex_def codesDistinct_def)

text \<open>
  Claim C4. A packet of the supported version in which neither team record carries our team
  number changes nothing: the state with its update counter, the flags, the reports and the
  written packets of the controller are the same after the handler as before.
\<close>

theorem unaddressed_packet_ignored:
  assumes "version d = STRUCT_VERSION K"
    and "teamNumber (teams d ! 0) \<noteq> teamID (refState c)"
    and "teamNumber (teams d ! 1) \<noteq> teamID (refState c)"
  shows "handleRefereeMessage K d c = c"
  using assms by (simp add: handleRefereeMessage_def findTeamIndex_def)

theorem unaddressed_packet_ignored_witness:
  "handleRefereeMessage exampleConstants (examplePacket 0 0)
     (exampleController\<lparr>refState := exampleState\<lparr>teamID := 9\<rparr>\<rparr>)
   = exampleController\<lparr>refState := exampleState\<lparr>teamID := 9\<rparr>\<rparr>"
  using unaddressed_packet_ignored [where K = exampleConstants and d = "examplePacket 0 0"
      and c = "exampleController\<lparr>refState := exampleState\<lparr>teamID := 9\<rparr>\<rparr>"]
  by (simp add: example_defs)

text \<open>
  Claim C9. The handler preserves the invariant that kick off mode \<open>KICKOFF_DROPBALL\<close>
  comes with kick off side \<open>KICKOFFSIDE_ANY\<close>, for every packet and every controller.
  The kick off test, which runs after the drop ball test on every packet applied, changes
  nothing when the kick off team is 2, and whenever it changes the state it sets mode
  \<open>KICKOFF_REGULAR\<close> together with a side other than \<open>KICKOFFSIDE_ANY\<close>.
\<close>

theorem kickOffInv_preserved:
  assumes "kickOffInv (refState c)"
  shows "kickOffInv (refState (handleRefereeMessage K d c))
       \<and> (kickOffTeam d = 2 \<and> (ti = 0 \<or> ti = 1) \<longrightarrow> adjustKickOff d ti s = s)
       \<and> (adjustKickOff d ti s \<noteq> s \<longrightarrow>
            kickOffMode (adjustKickOff d ti s) = KICKOFF_REGULAR
            \<and> kickOffSide (adjustKickOff d ti s) \<noteq> KICKOFFSIDE_ANY)"
proof (intro conjI)
  show "kickOffInv (refState (handleRefereeMessage K d c))"
  proof (cases "version d = STRUCT_VERSION K \<and> refereeEnabled c")
    case False
    then show ?thesis using assms by (auto simp: handleRefereeMessage_def)
  next
    case True
    show ?thesis
    proof (cases "findTeamIndex d (teamID (refState c))")
      case None
      then show ?thesis using True assms by (simp add: handleRefereeMessage_def)
    next
      case (Some ti')
      with True have "handleRefereeMessage K d c =
          c\<lparr>refState := applyPacket K d ti' (robotID c) (refState c), GCinitialized := True\<rparr>"
        by (simp add: handle_applied)
      then show ?thesis using assms by (simp add: applyPacket_kickOffInv)
    qed
  qed
next
  show "kickOffTeam d = 2 \<and> (ti = 0 \<or> ti = 1) \<longrightarrow> adjustKickOff d ti s = s"
    by (auto simp: adjustKickOff_def)
next
  show "adjustKickOff d ti s \<noteq> s \<longrightarrow>
          kickOffMode (adjustKickOff d ti s) = KICKOFF_REGULAR
          \<and> kickOffSide (adjustKickOff d ti s) \<noteq> KICKOFFSIDE_ANY"
    by (simp add: adjustKickOff_def)
qed

theorem kickOffInv_preserved_witness:
  "kickOffInv (refState (handleRefereeMessage exampleConstants (examplePacket 2 0) exampleController))"
  using kickOffInv_preserved [where K = exampleConstants and d = "examplePacket 2 0"
      and c = exampleController and ti = 0 and s = exampleState]
  by (simp add: example_defs kickOffInv_def)

text \<open>
  Claim C10. When the handler applies a packet, our team colour afterwards is Magenta if the
  colour field of our team record is \<open>TEAM_MAGENTA\<close>, and Cyan for every other value of
  that field.
\<close>

theorem team_color_mapping:
  assumes "version d = STRUCT_VERSION K" and "refereeEnabled c"
    and "findTeamIndex d (teamID (refState c)) = Some ti"
  shows "teamColor (refState (handleRefereeMessage K d c)) =
           (if teamColour (teams d ! nat ti) = TEAM_MAGENTA K then Magenta else Cyan)"
  by (simp add: handle_applied [OF assms] applyPacket_teamColor)

theorem team_color_mapping_witness:
  "teamColor (refState (handleRefereeMessage exampleConstants (examplePacket 0 0) exampleController))
     = Magenta"
  using team_color_mapping [where K = exampleConstants and d = "examplePacket 0 0"
      and c = exampleController and ti = 0]
  by (simp add: example_defs findTeamIndex_def)

text \<open>
  Claim C2. Handling a packet whose version differs from \<open>STRUCT_VERSION\<close> reports the
  version mismatch, leaves the state as it was and disables the referee for good: after
  any further sequence of packets given to the handler, and after any further sequence of
  datagrams given to the receive loop, the referee is still disabled and the state and
  the initialised flag are what they were before the mismatching packet.
\<close>

theorem version_mismatch_disables:
  assumes "version d \<noteq> STRUCT_VERSION K"
  shows "reports (handleRefereeMessage K d c)
           = reports c @ [VersionMismatch (version d) (STRUCT_VERSION K)]
       \<and> refState (handleRefereeMessage K d c) = refState c
       \<and> \<not> refereeEnabled (handleMessages K ds (handleRefereeMessage K d c))
       \<and> refState (handleMessages K ds (handleRefereeMessage K d c)) = refState c
       \<and> GCinitialized (handleMessages K ds (handleRefereeMessage K d c)) = GCinitialized c
       \<and> \<not> refereeEnabled (threadMain K dgs (handleRefereeMessage K d c))
       \<and> refState (threadMain K dgs (handleRefereeMessage K d c)) = refState c
       \<and> GCinitialized (threadMain K dgs (handleRefereeMessage K d c)) = GCinitialized c"
proof -
  let ?c1 = "handleRefereeMessage K d c"
  have c1: "?c1 = c\<lparr>refereeEnabled := False,
         reports := reports c @ [VersionMismatch (version d) (STRUCT_VERSION K)]\<rparr>"
    using assms by (rule handle_mismatch)
  have dis: "\<not> refereeEnabled ?c1" by (simp add: c1)
  have st: "refState ?c1 = refState c" and gi: "GCinitialized ?c1 = GCinitialized c"
    and rp: "reports ?c1 = reports c @ [VersionMismatch (version d) (STRUCT_VERSION K)]"
    by (simp_all add: c1)
  from handleMessages_when_disabled [OF dis, of K ds] threadMain_when_disabled [OF dis, of K dgs]
    st gi rp show ?thesis by simp
qed

theorem version_mismatch_disables_witness:
  "reports (handleRefereeMessage exampleConstants ((examplePacket 0 0)\<lparr>version := 6\<rparr>) exampleController)
     = [VersionMismatch 6 7]
   \<and> \<not> refereeEnabled (handleMessages exampleConstants [examplePacket 0 15]
        (handleRefereeMessage exampleConstants ((examplePacket 0 0)\<lparr>version := 6\<rparr>) exampleController))
   \<and> refState (handleMessages exampleConstants [examplePacket 0 15]
        (handleRefereeMessage exampleConstants ((examplePacket 0 0)\<lparr>version := 6\<rparr>) exampleController))
     = exampleState"
  using version_mismatch_disables [where K = exampleConstants
      and d = "(examplePacket 0 0)\<lparr>version := 6\<rparr>" and c = exampleController
      and ds = "[examplePacket 0 15]" and dgs = "[]"]
  by (simp add: example_defs)

text \<open>
  Claim C5. When the handler applies a packet and the robot's identifier is within
  1..\<open>MAX_NUM_PLAYERS\<close>, the remaining penalty time afterwards is not negative and the
  robot is penalised exactly when that time is positive; and when the seconds read from
  the robot's entry are not negative, the remaining time is that value and the robot is
  penalised exactly when the value is positive.
\<close>

theorem penalty_flag_matches_time:
  assumes "version d = STRUCT_VERSION K" and "refereeEnabled c"
    and "findTeamIndex d (teamID (refState c)) = Some ti"
    and "inRange K (robotID c)"
  shows "0 \<le> remainingPenalizedTime (refState (handleRefereeMessage K d c))
       \<and> (isPenalized (refState (handleRefereeMessage K d c))
            \<longleftrightarrow> 0 < remainingPenalizedTime (refState (handleRefereeMessage K d c)))
       \<and> (0 \<le> ownSecs d ti (robotID c) \<longrightarrow>
            remainingPenalizedTime (refState (handleRefereeMessage K d c)) = ownSecs d ti (robotID c)
            \<and> isPenalized (refState (handleRefereeMessage K d c)) = (0 < ownSecs d ti (robotID c)))"
  by (auto simp add: handle_applied [OF assms(1-3)] applyPacket_steps handlePenalties_in [OF assms(4)])

theorem penalty_flag_matches_time_witness:
  "remainingPenalizedTime (refState (handleRefereeMessage exampleConstants (examplePacket 0 15) exampleController)) = 15
   \<and> isPenalized (refState (handleRefereeMessage exampleConstants (examplePacket 0 15) exampleController))"
  using penalty_flag_matches_time [where K = exampleConstants and d = "examplePacket 0 15"
      and c = exampleController and ti = 0]
  by (simp add: example_defs findTeamIndex_def inRange_def ownSecs_def)

text \<open>
  Claim C8. When the handler applies a packet and the robot's identifier is outside
  1..\<open>MAX_NUM_PLAYERS\<close>, the remaining penalty time and the penalised flag keep their
  values, the state is the result of all the other steps, the referee stays enabled and
  the initialised flag is set. For an identifier inside the range \<^verbatim>\<open>getGCRobotID\<close>
  returns the identifier minus one, and the entry with that index is the one read.
\<close>

theorem invalid_robot_id_skips_lookup:
  assumes "version d = STRUCT_VERSION K" and "refereeEnabled c"
    and "findTeamIndex d (teamID (refState c)) = Some ti"
  shows "(\<not> inRange K (robotID c) \<longrightarrow>
            remainingPenalizedTime (refState (handleRefereeMessage K d c)) = remainingPenalizedTime (refState c)
          \<and> isPenalized (refState (handleRefereeMessage K d c)) = isPenalized (refState c)
          \<and> refState (handleRefereeMessage K d c) =
              adjustPenaltyShoot K d (adjustGameState K d (adjustTeamColor K d ti
                (adjustKickOff d ti (handleDropBall d (adjustScores d ti
                  (newState d ti (refState c)))))))
          \<and> refereeEnabled (handleRefereeMessage K d c)
          \<and> GCinitialized (handleRefereeMessage K d c))
       \<and> (inRange K (robotID c) \<longrightarrow>
            sint (getGCRobotID K (robotID c)) = sint (robotID c) - 1
          \<and> remainingPenalizedTime (refState (handleRefereeMessage K d c)) = 
              max 0 (secsTillUnpenalised (players (teams d ! nat ti) ! nat (sint (robotID c) - 1))))"
proof (cases "inRange K (robotID c)")
  case True
  then show ?thesis
    by (simp add: handle_applied [OF assms] applyPacket_steps handlePenalties_in getGCRobotID_in
        ownSecs_def)
next
  case False
  have "applyPacket K d ti (robotID c) (refState c) =
      adjustPenaltyShoot K d (adjustGameState K d (adjustTeamColor K d ti
                (adjustKickOff d ti (handleDropBall d (adjustScores d ti
                  (newState d ti (refState c)))))))"
    by (simp add: applyPacket_def handlePenalties_out [OF False])
  moreover have "remainingPenalizedTime (applyPacket K d ti (robotID c) (refState c)) = remainingPenalizedTime (refState c)
    \<and> isPenalized (applyPacket K d ti (robotID c) (refState c)) = isPenalized (refState c)"
    by (simp add: applyPacket_steps handlePenalties_out [OF False] beforePenalties_def)
  ultimately show ?thesis using False assms(2)
    by (simp add: handle_applied [OF assms])
qed

theorem invalid_robot_id_skips_lookup_witness:
  "remainingPenalizedTime (refState (handleRefereeMessage exampleConstants (examplePacket 0 15)
      (exampleController\<lparr>robotID := 0\<rparr>))) = 0
   \<and> isPenalized (refState (handleRefereeMessage exampleConstants (examplePacket 0 15)
      (exampleController\<lparr>robotID := 0\<rparr>))) = False
   \<and> refereeEnabled (handleRefereeMessage exampleConstants (examplePacket 0 15)
      (exampleController\<lparr>robotID := 0\<rparr>))
   \<and> remainingPenalizedTime (refState (handleRefereeMessage exampleConstants (examplePacket 0 15)
      exampleController)) = 15"
  using invalid_robot_id_skips_lookup [where K = exampleConstants and d = "examplePacket 0 15"
      and c = "exampleController\<lparr>robotID := 0\<rparr>" and ti = 0]
    invalid_robot_id_skips_lookup [where K = exampleConstants and d = "examplePacket 0 15"
      and c = exampleController and ti = 0]
  by (simp add: example_defs findTeamIndex_def inRange_def newState_def adjustScores_def
      handleDropBall_def adjustKickOff_def adjustTeamColor_def adjustGameState_def
      adjustPenaltyShoot_def)

text \<open>
  Claim C6, amended. The receive loop tests the header first and the size second. A
  datagram whose first four bytes are not the header tag is dropped without a report and
  without any change, whatever its length. A datagram with the header tag and a length
  other than the size of the struct is reported as a size mismatch and changes nothing
  else. No datagram of a wrong length changes the state, the flags or the packets
  written. The receiver of GameCtrl keeps its stored packet and returns false when every
  datagram read has a wrong size or a wrong header; it reports nothing.
\<close>

theorem wrong_size_or_header_dropped:
  "(0 < received \<and> \<not> strncmp_eq (header buffer) (literal (STRUCT_HEADER K)) 4
      \<longrightarrow> threadMainStep K (received, buffer) c = c)
   \<and> (0 < received \<and> strncmp_eq (header buffer) (literal (STRUCT_HEADER K)) 4
        \<and> received \<noteq> sizeof_RoboCupGameControlData K
      \<longrightarrow> threadMainStep K (received, buffer) c =
            c\<lparr>reports := reports c @ [SizeMismatch received (sizeof_RoboCupGameControlData K)]\<rparr>)
   \<and> (received \<noteq> sizeof_RoboCupGameControlData K
      \<longrightarrow> refState (threadMainStep K (received, buffer) c) = refState c
        \<and> refereeEnabled (threadMainStep K (received, buffer) c) = refereeEnabled c
        \<and> GCinitialized (threadMainStep K (received, buffer) c) = GCinitialized c
        \<and> written (threadMainStep K (received, buffer) c) = written c)
   \<and> (list_all (\<lambda>rd. fst rd \<noteq> sizeof_RoboCupGameControlData K
          \<or> \<not> memcmp4_eq (header (snd rd)) (literal (GAMECONTROLLER_STRUCT_HEADER K))) rds
      \<longrightarrow> receive K rds g = (False, g))"
proof (intro conjI impI)
  assume "0 < received \<and> \<not> strncmp_eq (header buffer) (literal (STRUCT_HEADER K)) 4"
  then show "threadMainStep K (received, buffer) c = c" by (simp add: step_foreign)
next
  assume "0 < received \<and> strncmp_eq (header buffer) (literal (STRUCT_HEADER K)) 4
        \<and> received \<noteq> sizeof_RoboCupGameControlData K"
  then show "threadMainStep K (received, buffer) c =
            c\<lparr>reports := reports c @ [SizeMismatch received (sizeof_RoboCupGameControlData K)]\<rparr>"
    by (simp add: step_size_mismatch)
next
  assume ne: "received \<noteq> sizeof_RoboCupGameControlData K"
  consider (err) "received \<le> 0"
    | (foreign) "0 < received" "\<not> strncmp_eq (header buffer) (literal (STRUCT_HEADER K)) 4"
    | (size) "0 < received" "strncmp_eq (header buffer) (literal (STRUCT_HEADER K)) 4"
    by linarith
  then have "refState (threadMainStep K (received, buffer) c) = refState c
        \<and> refereeEnabled (threadMainStep K (received, buffer) c) = refereeEnabled c
        \<and> GCinitialized (threadMainStep K (received, buffer) c) = GCinitialized c
        \<and> written (threadMainStep K (received, buffer) c) = written c"
  proof cases
    case err
    then show ?thesis by (simp add: step_recv_error)
  next
    case foreign
    then show ?thesis by (simp add: step_foreign)
  next
    case size
    then show ?thesis using ne by (simp add: step_size_mismatch)
  qed
  then show "refState (threadMainStep K (received, buffer) c) = refState c"
    and "refereeEnabled (threadMainStep K (received, buffer) c) = refereeEnabled c"
    and "GCinitialized (threadMainStep K (received, buffer) c) = GCinitialized c"
    and "written (threadMainStep K (received, buffer) c) = written c"
    by simp_all
next
  assume bad: "list_all (\<lambda>rd. fst rd \<noteq> sizeof_RoboCupGameControlData K
          \<or> \<not> memcmp4_eq (header (snd rd)) (literal (GAMECONTROLLER_STRUCT_HEADER K))) rds"
  have "list_all (\<lambda>rd. \<not> accepts K g rd) rds"
    using bad accepts_needs_size_and_header [of K g]
    by (auto simp: list_all_iff)
  then show "receive K rds g = (False, g)"
    by (simp add: receive_def receiveLoop_rejects)
qed

theorem wrong_size_or_header_dropped_witness:
  "threadMainStep exampleConstants (10, examplePacket 0 0) exampleController
     = exampleController\<lparr>reports := [SizeMismatch 10 116]\<rparr>
   \<and> threadMainStep exampleConstants (116, (examplePacket 0 0)\<lparr>header := ''ABCD''\<rparr>) exampleController
     = exampleController
   \<and> refState (threadMainStep exampleConstants (10, examplePacket 0 0) exampleController) = exampleState
   \<and> receive exampleConstants [(10, examplePacket 0 0)] exampleGameCtrl = (False, exampleGameCtrl)"
  using wrong_size_or_header_dropped [where K = exampleConstants and received = 10
      and buffer = "examplePacket 0 0" and c = exampleController
      and rds = "[(10, examplePacket 0 0)]" and g = exampleGameCtrl]
    wrong_size_or_header_dropped [where K = exampleConstants and received = 116
      and buffer = "(examplePacket 0 0)\<lparr>header := ''ABCD''\<rparr>" and c = exampleController
      and rds = "[]" and g = exampleGameCtrl]
  by (simp add: example_defs literal_def eval_nat_numeral)

theorem wrong_size_or_header_dropped_counterexample:
  "(10::int) \<noteq> sizeof_RoboCupGameControlData exampleConstants
   \<and> reports (threadMainStep exampleConstants (10, (examplePacket 0 0)\<lparr>header := ''ABCD''\<rparr>)
        exampleController) = []
   \<and> reports (threadMainStep exampleConstants (116, (examplePacket 0 0)\<lparr>header := ''ABCD''\<rparr>)
        exampleController) = []"
  by (simp add: threadMainStep_def example_defs literal_def eval_nat_numeral)

text \<open>
  Claim C7, amended. The receive loop answers every datagram that carries the header tag
  and has the size of the struct with one status packet: message ALIVE, our team
  identifier and the robot's identifier, sent to the configured port. It does so whether
  or not the packet lists our team. A datagram that fails the header or the size test,
  or a failed read, is not answered.
\<close>

theorem alive_sent_for_accepted_datagram:
  "(0 < received \<and> strncmp_eq (header buffer) (literal (STRUCT_HEADER K)) 4
      \<and> received = sizeof_RoboCupGameControlData K
     \<longrightarrow> written (threadMainStep K (received, buffer) c) =
           written c @
             [(\<lparr>ret_header = strncpy4 (literal (GAMECONTROLLER_RETURN_STRUCT_HEADER K)),
                ret_version = GAMECONTROLLER_RETURN_STRUCT_VERSION K,
                team = teamID (refState c), player = sint (robotID c),
                message = GAMECONTROLLER_RETURN_MSG_ALIVE K\<rparr>, gcPort c)])
   \<and> (\<not> (0 < received \<and> strncmp_eq (header buffer) (literal (STRUCT_HEADER K)) 4
          \<and> received = sizeof_RoboCupGameControlData K)
     \<longrightarrow> written (threadMainStep K (received, buffer) c) = written c)"
proof (intro conjI impI)
  assume "0 < received \<and> strncmp_eq (header buffer) (literal (STRUCT_HEADER K)) 4
      \<and> received = sizeof_RoboCupGameControlData K"
  then have "threadMainStep K (received, buffer) c =
       (handleRefereeMessage K buffer c)
         \<lparr>written := written c @ [(aliveStatus K (handleRefereeMessage K buffer c), gcPort c)]\<rparr>"
    by (simp add: step_accepted)
  then show "written (threadMainStep K (received, buffer) c) =
           written c @
             [(\<lparr>ret_header = strncpy4 (literal (GAMECONTROLLER_RETURN_STRUCT_HEADER K)),
                ret_version = GAMECONTROLLER_RETURN_STRUCT_VERSION K,
                team = teamID (refState c), player = sint (robotID c),
                message = GAMECONTROLLER_RETURN_MSG_ALIVE K\<rparr>, gcPort c)]"
    by (simp add: aliveStatus_handle) (simp add: aliveStatus_def)
next
  assume no: "\<not> (0 < received \<and> strncmp_eq (header buffer) (literal (STRUCT_HEADER K)) 4
          \<and> received = sizeof_RoboCupGameControlData K)"
  consider (err) "received \<le> 0"
    | (foreign) "0 < received" "\<not> strncmp_eq (header buffer) (literal (STRUCT_HEADER K)) 4"
    | (size) "0 < received" "strncmp_eq (header buffer) (literal (STRUCT_HEADER K)) 4"
        "received \<noteq> sizeof_RoboCupGameControlData K"
    using no by linarith
  then show "written (threadMainStep K (received, buffer) c) = written c"
  proof cases
    case err
    then show ?thesis by (simp add: step_recv_error)
  next
    case foreign
    then show ?thesis by (simp add: step_foreign)
  next
    case size
    then show ?thesis by (simp add: step_size_mismatch)
  qed
qed

theorem alive_sent_for_accepted_datagram_witness:
  "written (threadMainStep exampleConstants (116, examplePacket 0 0) exampleController)
     = [(\<lparr>ret_header = ''RGrt'', ret_version = 1, team = 2, player = 2, message = 0\<rparr>, 3838)]
   \<and> written (threadMainStep exampleConstants (10, examplePacket 0 0) exampleController) = []"
  using alive_sent_for_accepted_datagram [where K = exampleConstants and received = 116
      and buffer = "examplePacket 0 0" and c = exampleController]
    alive_sent_for_accepted_datagram [where K = exampleConstants and received = 10
      and buffer = "examplePacket 0 0" and c = exampleController]
  by (simp add: example_defs literal_def strncpy4_def eval_nat_numeral)

theorem alive_sent_for_accepted_datagram_counterexample:
  "findTeamIndex (examplePacket 0 0) 9 = None
   \<and> written (threadMainStep exampleConstants (116, examplePacket 0 0)
        (exampleController\<lparr>refState := exampleState\<lparr>teamID := 9\<rparr>\<rparr>))
     = [(\<lparr>ret_header = ''RGrt'', ret_version = 1, team = 9, player = 2, message = 0\<rparr>, 3838)]"
  by (simp add: threadMainStep_def handleRefereeMessage_def findTeamIndex_def aliveStatus_def
      example_defs literal_def strncpy4_def eval_nat_numeral)

end
